theory Spec2Isabelle
  imports Complex_Main
begin

section \<open>The ID-card request service of server.js\<close>

text \<open>
  The service is an Express application over one Mongoose connection, \<open>studentDb\<close>, with
  four collections. The embedding follows server.js top to bottom: the schemas become
  records, the connection with its collections becomes a state record, every route handler
  becomes a function from the state to a response and the next state, and the middleware
  chain (\<open>cors\<close>, \<open>express.json\<close>, the connection gate, the routes) becomes the function
  \<open>app\<close>.

  What Express, Mongoose and the document store do is not part of server.js. It is
  modelled as follows.
  \<^item> A collection is the list of its documents in natural (insertion) order.
    \<open>find({})\<close> returns the whole list, \<open>findOne\<close> the first document that matches,
    \<open>deleteOne\<close> removes the first document that matches, \<open>save\<close> of a new document
    appends it.
  \<^item> A stored document has the paths of its schema, with values of the schema's types. A
    path of type String without a default is \<open>None\<close> when the document has no string
    there (the field is missing or null). A path with a default is \<open>Missing\<close>, \<open>Null\<close>
    or a value: a query without \<open>lean()\<close> returns Mongoose documents, in which the
    default stands for a missing path.
  \<^item> A request body is the JSON object that \<open>express.json()\<close> parsed, with any JSON
    values under any keys. A model built from it reads the paths of its schema only
    (schemas are strict, other keys are dropped) and casts each value to the path's type.
    A string at a String path is kept, null stays null. What the cast makes of other
    values (the string of a number, the date of a number or a string) is taken from the
    environment, and so is the \<open>_id\<close> of the new document, which the body may supply.
    Where a cast fails, \<open>save()\<close> throws; that is one of the ways in which the
    environment's \<open>save_throws\<close> comes about.
  \<^item> A filter \<open>{field: v}\<close> with a string \<open>v\<close> matches the documents whose field is that
    string. An \<open>undefined\<close> value is sent as null (the connection of lines 26 to 31 does
    not set \<open>ignoreUndefined\<close>), and null matches the documents without the field. The
    operator object \<open>{$ne: null}\<close> matches the documents with the field. A number or a
    boolean is cast to its string; what an array or another object matches is taken from
    the environment.
  \<^item> Every storage call may throw. The environment of a request says, for each kind of
    call, whether it throws and with which message. A call that throws leaves its
    collection as it was.
  \<^item> The state carries a log of the storage calls that the handlers made. The log is
    ghost state: no handler reads it.
\<close>

subsection \<open>JSON values\<close>

datatype jvalue =
    JNull
  | JBool bool
  | JNumber rat
  | JString string
  | JArray "jvalue list"
  | JObject "(string \<times> jvalue) list"

text \<open>
  \<open>req.body\<close> after \<open>express.json()\<close>: the keys of the parsed object with their values.
  \<open>property b k\<close> is \<open>req.body[k]\<close>, and \<open>None\<close> is JavaScript's \<open>undefined\<close>.
\<close>

type_synonym body = "(string \<times> jvalue) list"

definition property :: "body \<Rightarrow> string \<Rightarrow> jvalue option" where
  "property b k = map_of b k"

subsection \<open>Schemas\<close>

text \<open>The value of a path that has a default.\<close>

datatype 'a path_value = Missing | Null | Value 'a

text \<open>The eight descriptive fields shared by the three ID-card schemas.\<close>

record idcard_fields =
  registerNumber :: "string option"
  name :: "string option"
  dob :: "string option"
  department :: "string option"
  year :: "string option"
  section' :: "string option"
  libraryCode :: "string option"
  reason :: "string option"

text \<open>A stored document has its \<open>_id\<close>.\<close>

record idcard_doc = idcard_fields +
  oid :: nat

text \<open>
  \<open>AcchistoryIdSchema\<close>, collection \<open>acchistoryids\<close>. Dates are milliseconds since the
  epoch, as \<open>Date.now\<close> returns them.
\<close>

record acchistoryid = idcard_doc +
  status :: "string option"
  createdAt :: "int path_value"

text \<open>\<open>printIdSchema\<close>, collection \<open>printids\<close>.\<close>

record printid = idcard_doc +
  createdAt :: "int path_value"

text \<open>\<open>acceptedIdCardSchema\<close>, collection \<open>acceptedidcards\<close>.\<close>

record acceptedidcard = idcard_doc +
  status :: "string path_value"
  acceptedAt :: "int path_value"

text \<open>
  The paths that \<open>acceptedIdCardSchema\<close> declares, lines 42 to 59. Mongoose adds \<open>_id\<close>
  and the version key to every schema; the version key is not represented in the
  documents.
\<close>

definition acceptedIdCard_paths :: "string list" where
  "acceptedIdCard_paths =
     [''registerNumber'', ''name'', ''dob'', ''department'', ''year'', ''section'',
      ''libraryCode'', ''reason'', ''status'', ''acceptedAt'']"

text \<open>\<open>adminIdSchema\<close>, collection \<open>adminids\<close>.\<close>

record adminid_doc =
  admin_oid :: nat
  adminid :: "string option"

subsection \<open>The connection and its collections\<close>

datatype collection = Printids | Acchistoryids | Acceptedidcards | Adminids

datatype storage_call =
    Find collection
  | FindOne collection
  | Save collection
  | DeleteOne collection

text \<open>
  \<open>readyState\<close> is the number Mongoose gives it: 0 disconnected, 1 connected,
  2 connecting, 3 disconnecting.
\<close>

record studentDb =
  readyState :: nat
  printids :: "printid list"
  acchistoryids :: "acchistoryid list"
  acceptedidcards :: "acceptedidcard list"
  adminids :: "adminid_doc list"
  calls :: "storage_call list"

subsection \<open>The environment of one request\<close>

text \<open>
  The clock, the casts that the model does not compute, and the outcome of each kind of
  storage call.
  \<^item> \<open>new_oid b\<close>: the \<open>_id\<close> of the document that a model builds from the body
    \<open>b\<close>: the ObjectId that the body supplies, where it supplies one, and a generated
    one otherwise.
  \<^item> \<open>other_string v\<close>: the string that the String cast makes of a value \<open>v\<close> that is
    neither a string nor null.
  \<^item> \<open>other_date v\<close>: what the Date cast makes of a value \<open>v\<close> that is not null (the
    date of a number of milliseconds or of a date string, null for the empty string).
  \<^item> \<open>other_condition v\<close>: the documents, by their field, that a filter value \<open>v\<close>
    matches when \<open>v\<close> is an array or an object other than \<open>{$ne: null}\<close>.
\<close>

record env =
  now :: int
  new_oid :: "body \<Rightarrow> nat"
  other_string :: "jvalue \<Rightarrow> string"
  other_date :: "jvalue \<Rightarrow> int path_value"
  other_condition :: "jvalue \<Rightarrow> string option \<Rightarrow> bool"
  find_throws :: "string option"
  findOne_throws :: "string option"
  save_throws :: "string option"
  deleteOne_throws :: "string option"

subsection \<open>Requests and responses\<close>

text \<open>The method and path of a request, as far as the routes tell them apart.\<close>

datatype target =
    To_healthz
  | To_api_printed
  | To_api_acchistoryids
  | To_api_accepted_idcards
  | To_api_accept_idcard
  | To_api_login
  | To_other

text \<open>
  The errors with which \<open>express.json()\<close> rejects a body that is declared as JSON, and
  the status each carries: the body does not parse (400), is larger than the limit (413),
  or has a charset or content encoding that is not supported (415).
\<close>

datatype body_error = Malformed_json | Entity_too_large | Unsupported_encoding

fun error_status :: "body_error \<Rightarrow> nat" where
  "error_status Malformed_json = 400"
| "error_status Entity_too_large = 413"
| "error_status Unsupported_encoding = 415"

text \<open>
  One constructor for each route that server.js registers: the GET requests, and the POST
  requests with the JSON object that \<open>express.json()\<close> parsed as their body.
  \<open>Unrouted\<close> is a request to any other method and path but OPTIONS,
  \<open>OPTIONS_request\<close> a request with the method OPTIONS, and \<open>Body_rejected\<close> a request
  to the given target whose body \<open>express.json()\<close> rejects. A POST whose body is not a
  JSON object (it has no JSON body, or its body is an array) is not represented: what
  \<open>req.body\<close> is without a JSON body depends on the version of Express.
\<close>

datatype request =
    GET_healthz
  | GET_api_printed
  | GET_api_acchistoryids
  | GET_api_accepted_idcards
  | POST_api_accept_idcard body
  | POST_api_login body
  | Unrouted
  | OPTIONS_request
  | Body_rejected body_error target

datatype json =
    Error_json string
  | Health_json bool bool
  | Printids_json "printid list"
  | Acchistoryids_json "acchistoryid list"
  | Acceptedidcards_json "acceptedidcard list"
  | Accepted_json string acceptedidcard
  | Success_json
  | Failure_json string
  | Not_found
  | No_content
  | Error_page

record response =
  res_status :: nat
  res_json :: json

subsection \<open>Casts\<close>

text \<open>The String cast of a value that a body supplies.\<close>

fun castString :: "env \<Rightarrow> jvalue \<Rightarrow> string path_value" where
  "castString e JNull = Null"
| "castString e (JString s) = Value s"
| "castString e v = Value (other_string e v)"

text \<open>A String path without a default, set from \<open>req.body[k]\<close>.\<close>

fun string_path :: "env \<Rightarrow> jvalue option \<Rightarrow> string option" where
  "string_path e None = None"
| "string_path e (Some v) = (case castString e v of Value s \<Rightarrow> Some s | _ \<Rightarrow> None)"

text \<open>The Date cast of a value that a body supplies.\<close>

fun castDate :: "env \<Rightarrow> jvalue \<Rightarrow> int path_value" where
  "castDate e JNull = Null"
| "castDate e v = other_date e v"

text \<open>A default stands for a missing path, and for nothing else.\<close>

fun default_to :: "'a \<Rightarrow> 'a path_value \<Rightarrow> 'a path_value" where
  "default_to a Missing = Value a"
| "default_to a v = v"

text \<open>
  The documents that a query without \<open>lean()\<close> returns: the stored ones, with the
  schema's defaults (lines 51 to 58, 71 to 74 and 108 to 111) for the paths they miss.
  \<open>Date.now\<close> is called when the document is built from the query's result.
\<close>

definition hydrate_printid :: "int \<Rightarrow> printid \<Rightarrow> printid" where
  "hydrate_printid t d = d\<lparr>createdAt := default_to t (createdAt d)\<rparr>"

definition hydrate_acchistoryid :: "int \<Rightarrow> acchistoryid \<Rightarrow> acchistoryid" where
  "hydrate_acchistoryid t d =
     d\<lparr>acchistoryid.createdAt := default_to t (acchistoryid.createdAt d)\<rparr>"

definition hydrate_acceptedidcard :: "int \<Rightarrow> acceptedidcard \<Rightarrow> acceptedidcard" where
  "hydrate_acceptedidcard t d =
     d\<lparr>status := default_to ''accepted'' (status d),
       acceptedAt := default_to t (acceptedAt d)\<rparr>"

subsection \<open>Storage operations\<close>

text \<open>Whether the filter \<open>{field: v}\<close> on a String path matches a document with the given field.\<close>

fun filter_matches :: "env \<Rightarrow> jvalue option \<Rightarrow> string option \<Rightarrow> bool" where
  "filter_matches e None field = (field = None)"
| "filter_matches e (Some JNull) field = (field = None)"
| "filter_matches e (Some (JString s)) field = (field = Some s)"
| "filter_matches e (Some (JNumber n)) field = (field = Some (other_string e (JNumber n)))"
| "filter_matches e (Some (JBool b)) field = (field = Some (other_string e (JBool b)))"
| "filter_matches e (Some (JArray vs)) field = other_condition e (JArray vs) field"
| "filter_matches e (Some (JObject kvs)) field =
     (if kvs = [(''$ne'', JNull)] then field \<noteq> None
      else other_condition e (JObject kvs) field)"

fun findOne :: "('a \<Rightarrow> bool) \<Rightarrow> 'a list \<Rightarrow> 'a option" where
  "findOne p [] = None"
| "findOne p (d # ds) = (if p d then Some d else findOne p ds)"

fun deleteOne :: "('a \<Rightarrow> bool) \<Rightarrow> 'a list \<Rightarrow> 'a list" where
  "deleteOne p [] = []"
| "deleteOne p (d # ds) = (if p d then ds else d # deleteOne p ds)"

text \<open>The filter \<open>{registerNumber: req.body.registerNumber}\<close> of line 171.\<close>

definition printid_filter :: "env \<Rightarrow> body \<Rightarrow> printid \<Rightarrow> bool" where
  "printid_filter e b d =
     filter_matches e (property b ''registerNumber'') (registerNumber d)"

text \<open>The filter \<open>{adminid: adminId}\<close> of line 187.\<close>

definition adminid_filter :: "env \<Rightarrow> body \<Rightarrow> adminid_doc \<Rightarrow> bool" where
  "adminid_filter e b d = filter_matches e (property b ''adminId'') (adminid d)"

definition issue :: "storage_call \<Rightarrow> studentDb \<Rightarrow> studentDb" where
  "issue c db = db\<lparr>calls := calls db @ [c]\<rparr>"

subsection \<open>The middleware and the handlers\<close>

text \<open>
  For each middleware, \<open>Some\<close> is the response it sends and \<open>None\<close> is the call of
  \<open>next()\<close>. \<open>cors\<close>, lines 13 to 20, answers every OPTIONS request itself; on any other
  request it only sets headers, which the responses of the model do not carry.
\<close>

fun cors :: "request \<Rightarrow> response option" where
  "cors OPTIONS_request = Some \<lparr>res_status = 204, res_json = No_content\<rparr>"
| "cors rq = None"

text \<open>
  \<open>express.json()\<close>, line 23: a body that it rejects ends the request in Express's error
  handler, which sends the status of the error with a page that is not JSON.
\<close>

fun express_json :: "request \<Rightarrow> response option" where
  "express_json (Body_rejected err t) =
     Some \<lparr>res_status = error_status err, res_json = Error_page\<rparr>"
| "express_json rq = None"

text \<open>The gate, lines 117 to 122.\<close>

definition gate :: "studentDb \<Rightarrow> response option" where
  "gate db =
     (if readyState db \<noteq> 1
      then Some \<lparr>res_status = 503, res_json = Error_json ''Database connecting. Please retry.''\<rparr>
      else None)"

definition get_healthz :: "studentDb \<Rightarrow> response \<times> studentDb" where
  "get_healthz db =
     (\<lparr>res_status = 200, res_json = Health_json True (readyState db = 1)\<rparr>, db)"

definition get_api_printed :: "env \<Rightarrow> studentDb \<Rightarrow> response \<times> studentDb" where
  "get_api_printed e db =
     (let db1 = issue (Find Printids) db in
      case find_throws e of
        Some msg \<Rightarrow> (\<lparr>res_status = 500, res_json = Error_json msg\<rparr>, db1)
      | None \<Rightarrow>
          (let printData = map (hydrate_printid (now e)) (printids db1) in
           (\<lparr>res_status = 200, res_json = Printids_json printData\<rparr>, db1)))"

definition get_api_acchistoryids :: "env \<Rightarrow> studentDb \<Rightarrow> response \<times> studentDb" where
  "get_api_acchistoryids e db =
     (let db1 = issue (Find Acchistoryids) db in
      case find_throws e of
        Some msg \<Rightarrow> (\<lparr>res_status = 500, res_json = Error_json msg\<rparr>, db1)
      | None \<Rightarrow>
          (let acchistoryData = map (hydrate_acchistoryid (now e)) (acchistoryids db1) in
           (\<lparr>res_status = 200, res_json = Acchistoryids_json acchistoryData\<rparr>, db1)))"

definition get_api_accepted_idcards :: "env \<Rightarrow> studentDb \<Rightarrow> response \<times> studentDb" where
  "get_api_accepted_idcards e db =
     (let db1 = issue (Find Acceptedidcards) db in
      case find_throws e of
        Some msg \<Rightarrow> (\<lparr>res_status = 500, res_json = Error_json msg\<rparr>, db1)
      | None \<Rightarrow>
          (let acceptedCards = map (hydrate_acceptedidcard (now e)) (acceptedidcards db1) in
           (\<lparr>res_status = 200, res_json = Acceptedidcards_json acceptedCards\<rparr>, db1)))"

text \<open>
  \<open>new AcceptedIdCard(req.body)\<close>: the schema's paths are read from the body and cast, the
  two defaults apply where the body has no value (\<open>undefined\<close>, not null), and the document
  gets its \<open>_id\<close>.
\<close>

definition new_AcceptedIdCard :: "env \<Rightarrow> body \<Rightarrow> acceptedidcard" where
  "new_AcceptedIdCard e b =
     \<lparr>registerNumber = string_path e (property b ''registerNumber''),
      name = string_path e (property b ''name''),
      dob = string_path e (property b ''dob''),
      department = string_path e (property b ''department''),
      year = string_path e (property b ''year''),
      section' = string_path e (property b ''section''),
      libraryCode = string_path e (property b ''libraryCode''),
      reason = string_path e (property b ''reason''),
      oid = new_oid e b,
      status =
        (case property b ''status'' of None \<Rightarrow> Value ''accepted'' | Some v \<Rightarrow> castString e v),
      acceptedAt =
        (case property b ''acceptedAt'' of None \<Rightarrow> Value (now e) | Some v \<Rightarrow> castDate e v)\<rparr>"

text \<open>Lines 166 to 180: save, then deleteOne, then the 201; the catch turns a throw into a 500.\<close>

definition save_then_delete :: "env \<Rightarrow> studentDb \<Rightarrow> body \<Rightarrow> response \<times> studentDb" where
  "save_then_delete e db b =
     (let acceptedIdCard = new_AcceptedIdCard e b;
          db1 = issue (Save Acceptedidcards) db in
      case save_throws e of
        Some msg \<Rightarrow> (\<lparr>res_status = 500, res_json = Error_json msg\<rparr>, db1)
      | None \<Rightarrow>
          (let savedCard = acceptedIdCard;
               db2 = db1\<lparr>acceptedidcards := acceptedidcards db1 @ [savedCard]\<rparr>;
               db3 = issue (DeleteOne Printids) db2 in
           case deleteOne_throws e of
             Some msg \<Rightarrow> (\<lparr>res_status = 500, res_json = Error_json msg\<rparr>, db3)
           | None \<Rightarrow>
               (\<lparr>res_status = 201,
                 res_json = Accepted_json ''ID card request accepted successfully'' savedCard\<rparr>,
                db3\<lparr>printids :=
                      deleteOne (printid_filter e b) (printids db3)\<rparr>)))"

text \<open>The handler of POST /api/accept-idcard, lines 160 to 181.\<close>

definition post_api_accept_idcard :: "env \<Rightarrow> studentDb \<Rightarrow> body \<Rightarrow> response \<times> studentDb" where
  "post_api_accept_idcard e db b =
     (if readyState db \<noteq> 1
      then (\<lparr>res_status = 500, res_json = Error_json ''Database not connected''\<rparr>, db)
      else save_then_delete e db b)"

text \<open>The handler of POST /api/login, lines 184 to 196.\<close>

definition post_api_login :: "env \<Rightarrow> studentDb \<Rightarrow> body \<Rightarrow> response \<times> studentDb" where
  "post_api_login e db b =
     (let db1 = issue (FindOne Adminids) db in
      case findOne_throws e of
        Some msg \<Rightarrow> (\<lparr>res_status = 500, res_json = Error_json msg\<rparr>, db1)
      | None \<Rightarrow>
          (case map_option admin_oid (findOne (adminid_filter e b) (adminids db1)) of
             Some admin \<Rightarrow> (\<lparr>res_status = 200, res_json = Success_json\<rparr>, db1)
           | None \<Rightarrow>
               (\<lparr>res_status = 401, res_json = Failure_json ''Invalid admin ID''\<rparr>, db1)))"

text \<open>
  The routes, in the order of their registration; a request that matches none gets the
  404. The last two kinds of request never come this far.
\<close>

fun route :: "env \<Rightarrow> studentDb \<Rightarrow> request \<Rightarrow> response \<times> studentDb" where
  "route e db GET_healthz = get_healthz db"
| "route e db GET_api_printed = get_api_printed e db"
| "route e db GET_api_acchistoryids = get_api_acchistoryids e db"
| "route e db GET_api_accepted_idcards = get_api_accepted_idcards e db"
| "route e db (POST_api_accept_idcard b) = post_api_accept_idcard e db b"
| "route e db (POST_api_login b) = post_api_login e db b"
| "route e db rq = (\<lparr>res_status = 404, res_json = Not_found\<rparr>, db)"

text \<open>
  The application: \<open>cors\<close>, \<open>express.json\<close> and the gate are registered with \<open>app.use\<close>,
  in this order, before every route.
\<close>

definition app :: "env \<Rightarrow> studentDb \<Rightarrow> request \<Rightarrow> response \<times> studentDb" where
  "app e db rq =
     (case cors rq of
        Some res \<Rightarrow> (res, db)
      | None \<Rightarrow>
          (case express_json rq of
             Some res \<Rightarrow> (res, db)
           | None \<Rightarrow>
               (case gate db of
                  Some res \<Rightarrow> (res, db)
                | None \<Rightarrow> route e db rq)))"

text \<open>The endpoints under /api.\<close>

fun api_target :: "target \<Rightarrow> bool" where
  "api_target To_healthz = False"
| "api_target To_other = False"
| "api_target t = True"

fun api_endpoint :: "request \<Rightarrow> bool" where
  "api_endpoint GET_api_printed = True"
| "api_endpoint GET_api_acchistoryids = True"
| "api_endpoint GET_api_accepted_idcards = True"
| "api_endpoint (POST_api_accept_idcard b) = True"
| "api_endpoint (POST_api_login b) = True"
| "api_endpoint (Body_rejected err t) = api_target t"
| "api_endpoint rq = False"

subsection \<open>Vocabulary of the properties\<close>

text \<open>The documents of a list that carry a given register number.\<close>

definition with_registerNumber ::
  "string \<Rightarrow> 'a idcard_fields_scheme list \<Rightarrow> 'a idcard_fields_scheme list" where
  "with_registerNumber r ds = filter (\<lambda>d. registerNumber d = Some r) ds"

text \<open>The accepted documents of a list that carry a given register number and the status "accepted".\<close>

definition accepted_with :: "string \<Rightarrow> acceptedidcard list \<Rightarrow> acceptedidcard list" where
  "accepted_with r ds =
     filter (\<lambda>d. registerNumber d = Some r \<and> status d = Value ''accepted'') ds"


subsection \<open>Concrete data for the examples\<close>

text \<open>
  An environment in which no storage call throws and every new document gets the
  \<open>_id\<close> 7. The examples use strings, null and \<open>{$ne: null}\<close> only, so the casts of
  other values are not looked at.
\<close>

definition quiet :: env where
  "quiet = \<lparr>now = 1000, new_oid = (\<lambda>b. 7), other_string = (\<lambda>v. []),
            other_date = (\<lambda>v. Null), other_condition = (\<lambda>v field. False),
            find_throws = None, findOne_throws = None, save_throws = None,
            deleteOne_throws = None\<rparr>"

text \<open>An environment in which \<open>deleteOne\<close> throws, and one in which \<open>find\<close> and \<open>findOne\<close> throw.\<close>

definition delete_fails :: env where
  "delete_fails = quiet\<lparr>deleteOne_throws := Some ''socket closed''\<rparr>"


definition body_R100 :: body where
  "body_R100 =
     [(''registerNumber'', JString ''R100''), (''name'', JString ''A''),
      (''dob'', JString ''2000-01-01''), (''department'', JString ''CS''),
      (''year'', JString ''2''), (''section'', JString ''A''),
      (''libraryCode'', JString ''L1''), (''reason'', JString ''graduation'')]"

text \<open>The same body with a status of its own, and with a key that the schema does not have.\<close>

definition body_R100_rejected :: body where
  "body_R100_rejected = (''status'', JString ''rejected'') # body_R100"

definition body_R100_role :: body where
  "body_R100_role = (''role'', JString ''admin'') # body_R100"


definition print_R100 :: "nat \<Rightarrow> printid" where
  "print_R100 i =
     \<lparr>registerNumber = Some ''R100'', name = Some ''A'', dob = Some ''2000-01-01'',
      department = Some ''CS'', year = Some ''2'', section' = Some ''A'',
      libraryCode = Some ''L1'', reason = Some ''graduation'',
      oid = i, createdAt = Value 500\<rparr>"

definition accepted_R100 :: "nat \<Rightarrow> acceptedidcard" where
  "accepted_R100 i =
     \<lparr>registerNumber = Some ''R100'', name = Some ''A'', dob = Some ''2000-01-01'',
      department = Some ''CS'', year = Some ''2'', section' = Some ''A'',
      libraryCode = Some ''L1'', reason = Some ''graduation'',
      oid = i, status = Value ''accepted'', acceptedAt = Value 1000\<rparr>"


definition empty_db :: "nat \<Rightarrow> studentDb" where
  "empty_db rs = \<lparr>readyState = rs, printids = [], acchistoryids = [], acceptedidcards = [],
                  adminids = [], calls = []\<rparr>"

text \<open>A connected store with one pending request for R100.\<close>

definition db_pending :: studentDb where
  "db_pending = (empty_db 1)\<lparr>printids := [print_R100 1]\<rparr>"

text \<open>A connected store with two pending requests for R100.\<close>

definition db_two_pending :: studentDb where
  "db_two_pending = (empty_db 1)\<lparr>printids := [print_R100 1, print_R100 2]\<rparr>"

text \<open>A connected store in which R100 is pending twice and was accepted once before.\<close>

definition db_accepted_before :: studentDb where
  "db_accepted_before =
     (empty_db 1)\<lparr>printids := [print_R100 1, print_R100 2],
                  acceptedidcards := [accepted_R100 3]\<rparr>"


text \<open>A connected store whose allow-list holds the one admin ID "root".\<close>

definition db_root :: studentDb where
  "db_root = (empty_db 1)\<lparr>adminids := [\<lparr>admin_oid = 9, adminid = Some ''root''\<rparr>]\<rparr>"

text \<open>The same with a second document, which has no \<open>adminid\<close>.\<close>

definition db_root_and_blank :: studentDb where
  "db_root_and_blank =
     (empty_db 1)\<lparr>adminids := [\<lparr>admin_oid = 9, adminid = Some ''root''\<rparr>,
                              \<lparr>admin_oid = 10, adminid = None\<rparr>]\<rparr>"

section \<open>Facts about the storage operations\<close>

lemma findOne_None_iff: "findOne p ds = None \<longleftrightarrow> (\<forall>d \<in> set ds. \<not> p d)"
  by (induction ds) auto

lemma findOne_Some_iff: "(\<exists>d. findOne p ds = Some d) \<longleftrightarrow> (\<exists>d \<in> set ds. p d)"
  using findOne_None_iff [of p ds] by auto

lemma deleteOne_no_match: "\<forall>d \<in> set ds. \<not> p d \<Longrightarrow> deleteOne p ds = ds"
  by (induction ds) auto

lemma deleteOne_first_match:
  assumes "\<exists>d \<in> set ds. p d"
  shows "\<exists>xs d ys. ds = xs @ d # ys \<and> p d \<and> (\<forall>x \<in> set xs. \<not> p x) \<and> deleteOne p ds = xs @ ys"
  using assms
proof (induction ds)
  case Nil
  then show ?case by simp
next
  case (Cons a ds)
  show ?case
  proof (cases "p a")
    case True
    then have "a # ds = [] @ a # ds \<and> p a \<and> (\<forall>x \<in> set []. \<not> p x) \<and> deleteOne p (a # ds) = [] @ ds"
      by simp
    then show ?thesis by blast
  next
    case False
    with Cons.prems have "\<exists>d \<in> set ds. p d" by auto
    with Cons.IH obtain xs d ys where
      *: "ds = xs @ d # ys" "p d" "\<forall>x \<in> set xs. \<not> p x" "deleteOne p ds = xs @ ys"
      by blast
    with False have "a # ds = (a # xs) @ d # ys \<and> p d \<and> (\<forall>x \<in> set (a # xs). \<not> p x) \<and>
        deleteOne p (a # ds) = (a # xs) @ ys"
      by simp
    then show ?thesis by blast
  qed
qed

lemma length_filter_deleteOne:
  "length (filter p (deleteOne p ds)) = length (filter p ds) - 1"
  by (induction ds) auto

section \<open>Facts about defaults\<close>

text \<open>Which cards a list shows as accepted does not depend on the time of the query.\<close>

lemma accepted_with_hydrate_time:
  "length (accepted_with r (map (hydrate_acceptedidcard t) ds)) =
   length (accepted_with r (map (hydrate_acceptedidcard t') ds))"
  by (induction ds) (simp_all add: accepted_with_def hydrate_acceptedidcard_def)

lemma with_registerNumber_hydrate:
  "with_registerNumber r (map (hydrate_printid t) ps) =
   map (hydrate_printid t) (with_registerNumber r ps)"
  by (induction ps) (simp_all add: with_registerNumber_def hydrate_printid_def)

section \<open>Facts about the handlers\<close>

lemma app_connected:
  "cors rq = None \<Longrightarrow> express_json rq = None \<Longrightarrow> readyState db = 1 \<Longrightarrow>
   app e db rq = route e db rq"
  by (simp add: app_def gate_def)

lemma app_not_connected:
  "cors rq = None \<Longrightarrow> express_json rq = None \<Longrightarrow> readyState db \<noteq> 1 \<Longrightarrow>
   app e db rq =
     (\<lparr>res_status = 503, res_json = Error_json ''Database connecting. Please retry.''\<rparr>, db)"
  by (simp add: app_def gate_def)

text \<open>The 201 is sent exactly when the gate lets the request pass and neither storage call throws.\<close>

lemma accept_201_iff:
  "res_status (fst (app e db (POST_api_accept_idcard b))) = 201 \<longleftrightarrow>
   readyState db = 1 \<and> save_throws e = None \<and> deleteOne_throws e = None"
  by (cases "readyState db = 1")
     (auto simp: app_connected app_not_connected post_api_accept_idcard_def
        save_then_delete_def Let_def split: option.splits)

lemma accept_201_result:
  assumes "readyState db = 1" and "save_throws e = None" and "deleteOne_throws e = None"
  shows "app e db (POST_api_accept_idcard b) =
    (\<lparr>res_status = 201,
      res_json = Accepted_json ''ID card request accepted successfully'' (new_AcceptedIdCard e b)\<rparr>,
     db\<lparr>calls := calls db @ [Save Acceptedidcards, DeleteOne Printids],
        acceptedidcards := acceptedidcards db @ [new_AcceptedIdCard e b],
        printids := deleteOne (printid_filter e b) (printids db)\<rparr>)"
  using assms
  by (simp add: app_connected post_api_accept_idcard_def save_then_delete_def Let_def
      issue_def)

section \<open>The connection gate\<close>

text \<open>
  C4, as stated, fails. A request to /api/login whose JSON body does not parse, made while
  the connection is connecting, is answered by \<open>express.json()\<close> with HTTP 400: it does
  not come as far as the gate.
\<close>

theorem malformed_body_before_gate:
  "api_endpoint (Body_rejected Malformed_json To_api_login) \<and> readyState (empty_db 2) \<noteq> 1 \<and>
   app quiet (empty_db 2) (Body_rejected Malformed_json To_api_login) =
     (\<lparr>res_status = 400, res_json = Error_page\<rparr>, empty_db 2)"
  by (simp add: app_def empty_db_def)

text \<open>
  C4, amended. A request to one of the five endpoints under /api that arrives while
  \<open>readyState\<close> is not 1 is answered by the gate with HTTP 503 and the body
  \<open>{error: "Database connecting. Please retry."}\<close>, unless \<open>express.json()\<close> rejects its
  body: then \<open>express.json()\<close> has answered it before the gate, with HTTP 400 for a body
  that does not parse. In both cases the state after the request is the state before it:
  no collection has changed and no storage call has been made.
\<close>

theorem gate_blocks_api:
  assumes "api_endpoint rq" and "readyState db \<noteq> 1"
  shows "app e db rq =
           (case express_json rq of
              Some res \<Rightarrow> (res, db)
            | None \<Rightarrow>
                (\<lparr>res_status = 503,
                  res_json = Error_json ''Database connecting. Please retry.''\<rparr>, db))"
  using assms by (cases rq) (simp_all add: app_def gate_def)

text \<open>The accept endpoint while the connection is still connecting.\<close>

theorem gate_blocks_api_witness:
  "api_endpoint (POST_api_accept_idcard body_R100) \<and> readyState (empty_db 2) \<noteq> 1 \<and>
   app quiet (empty_db 2) (POST_api_accept_idcard body_R100) =
     (\<lparr>res_status = 503, res_json = Error_json ''Database connecting. Please retry.''\<rparr>,
      empty_db 2)"
  using gate_blocks_api [of "POST_api_accept_idcard body_R100" "empty_db 2" quiet]
  by (simp add: empty_db_def)

text \<open>
  C3. The health probe is behind the gate. A GET /healthz that arrives while the connection
  is connecting (\<open>readyState\<close> 2) gets the gate's 503, although the handler of /healthz,
  run on the same state, would send HTTP 200 with \<open>{ok: true, db: false}\<close>.
\<close>

theorem healthz_behind_gate:
  "app quiet (empty_db 2) GET_healthz =
     (\<lparr>res_status = 503, res_json = Error_json ''Database connecting. Please retry.''\<rparr>,
      empty_db 2) \<and>
   get_healthz (empty_db 2) =
     (\<lparr>res_status = 200, res_json = Health_json True False\<rparr>, empty_db 2)"
  by (simp add: app_def gate_def get_healthz_def empty_db_def)

text \<open>
  C10. The not-connected branch of the accept handler is never taken. Whenever the gate
  calls \<open>next()\<close> the ready-state is 1 and the handler is its save-then-delete part; and
  what the application answers to POST /api/accept-idcard is, in every state, either the
  gate's response or the result of the save-then-delete part.
\<close>

theorem not_connected_branch_unreachable:
  "(gate db = None \<longrightarrow>
      readyState db = 1 \<and> post_api_accept_idcard e db b = save_then_delete e db b) \<and>
   app e db (POST_api_accept_idcard b) =
     (case gate db of Some res \<Rightarrow> (res, db) | None \<Rightarrow> save_then_delete e db b)"
  by (simp add: app_def gate_def post_api_accept_idcard_def)

text \<open>A connected store, where the gate passes, and a disconnected one, where the 503 is sent
  and not the handler's 500.\<close>

theorem not_connected_branch_unreachable_witness:
  "gate db_pending = None \<and> readyState db_pending = 1 \<and>
   post_api_accept_idcard quiet db_pending body_R100 = save_then_delete quiet db_pending body_R100 \<and>
   gate (empty_db 0) \<noteq> None \<and>
   fst (app quiet (empty_db 0) (POST_api_accept_idcard body_R100)) \<noteq>
     \<lparr>res_status = 500, res_json = Error_json ''Database not connected''\<rparr>"
  using not_connected_branch_unreachable [of db_pending quiet body_R100]
    not_connected_branch_unreachable [of "empty_db 0" quiet body_R100]
  by (simp add: gate_def db_pending_def empty_db_def)

section \<open>The read endpoints\<close>



section \<open>The accept operation\<close>

text \<open>
  C5. In an accept that passes the gate, the save into \<open>acceptedidcards\<close> is issued
  before the \<open>deleteOne\<close> on \<open>printids\<close>. If the save throws, the response is the 500
  with its message and nothing else has happened: no delete was issued. If the save does
  not throw, the new accepted document is stored whatever the delete does; and if the
  delete throws, the response is the 500 with its message, the accepted document stays
  and \<open>printids\<close> is as it was.
\<close>

theorem insert_before_delete:
  assumes "readyState db = 1" and "app e db (POST_api_accept_idcard b) = (res, db')"
  shows
    "(\<forall>msg. save_throws e = Some msg \<longrightarrow>
        res = \<lparr>res_status = 500, res_json = Error_json msg\<rparr> \<and>
        db' = issue (Save Acceptedidcards) db) \<and>
     (save_throws e = None \<longrightarrow>
        acceptedidcards db' = acceptedidcards db @ [new_AcceptedIdCard e b] \<and>
        calls db' = calls db @ [Save Acceptedidcards, DeleteOne Printids] \<and>
        (\<forall>msg. deleteOne_throws e = Some msg \<longrightarrow>
           res = \<lparr>res_status = 500, res_json = Error_json msg\<rparr> \<and>
           printids db' = printids db))"
  using assms
  by (auto simp: app_connected post_api_accept_idcard_def save_then_delete_def Let_def
      issue_def split: option.splits)

text \<open>An accept of R100 whose delete throws: a 500, and both copies are stored.\<close>

theorem insert_before_delete_witness:
  "readyState db_pending = 1 \<and> save_throws delete_fails = None \<and>
   deleteOne_throws delete_fails = Some ''socket closed'' \<and>
   fst (app delete_fails db_pending (POST_api_accept_idcard body_R100)) =
     \<lparr>res_status = 500, res_json = Error_json ''socket closed''\<rparr> \<and>
   acceptedidcards (snd (app delete_fails db_pending (POST_api_accept_idcard body_R100))) =
     [new_AcceptedIdCard delete_fails body_R100] \<and>
   calls (snd (app delete_fails db_pending (POST_api_accept_idcard body_R100))) =
     [Save Acceptedidcards, DeleteOne Printids] \<and>
   printids (snd (app delete_fails db_pending (POST_api_accept_idcard body_R100))) =
     [print_R100 1]"
  using insert_before_delete [of db_pending delete_fails body_R100
      "fst (app delete_fails db_pending (POST_api_accept_idcard body_R100))"
      "snd (app delete_fails db_pending (POST_api_accept_idcard body_R100))"]
  by (simp add: db_pending_def empty_db_def delete_fails_def quiet_def)

text \<open>
  C7, as stated, fails. A body that has, beside the fields of R100, the key "role" is
  accepted. The stored document, which is also the \<open>data\<close> of the response, has the
  fields of R100 and the two defaults and nothing of the key: the store after the request
  is the one that the body without the key leaves. The stored document is not the body
  verbatim.
\<close>

theorem extra_key_not_stored:
  "res_status (fst (app quiet db_pending (POST_api_accept_idcard body_R100_role))) = 201 \<and>
   property body_R100_role ''role'' = Some (JString ''admin'') \<and>
   ''role'' \<notin> set acceptedIdCard_paths \<and>
   res_json (fst (app quiet db_pending (POST_api_accept_idcard body_R100_role))) =
     Accepted_json ''ID card request accepted successfully'' (accepted_R100 7) \<and>
   acceptedidcards (snd (app quiet db_pending (POST_api_accept_idcard body_R100_role))) =
     [accepted_R100 7] \<and>
   snd (app quiet db_pending (POST_api_accept_idcard body_R100_role)) =
     snd (app quiet db_pending (POST_api_accept_idcard body_R100))"
  by (simp add: app_connected post_api_accept_idcard_def save_then_delete_def Let_def issue_def
      printid_filter_def new_AcceptedIdCard_def property_def body_R100_role_def body_R100_def
      acceptedIdCard_paths_def accepted_R100_def db_pending_def empty_db_def quiet_def)

text \<open>
  C7, amended. A successful accept (response status 201) answers
  \<open>{message: "ID card request accepted successfully", data: saved}\<close>, where \<open>saved\<close> is
  the document appended to \<open>acceptedidcards\<close>. Its fields are built from the ten paths
  that \<open>acceptedIdCardSchema\<close> declares and from nothing else in the body: a body that
  agrees on these paths gives the same document, but for its \<open>_id\<close>. Each of the eight
  descriptive fields is the String cast of the body's value (a string as it is), or has
  no value if the body has none; \<open>status\<close> is "accepted" if the body has no status, and
  else the String cast of the body's status (null stays null); \<open>acceptedAt\<close> is the
  current time if the body has no acceptedAt, and else the Date cast of the body's value.
\<close>

theorem accept_stores_body:
  assumes "app e db (POST_api_accept_idcard b) = (res, db')" and "res_status res = 201"
  shows
    "\<exists>saved.
       res = \<lparr>res_status = 201,
              res_json = Accepted_json ''ID card request accepted successfully'' saved\<rparr> \<and>
       acceptedidcards db' = acceptedidcards db @ [saved] \<and>
       registerNumber saved = string_path e (property b ''registerNumber'') \<and>
       name saved = string_path e (property b ''name'') \<and>
       dob saved = string_path e (property b ''dob'') \<and>
       department saved = string_path e (property b ''department'') \<and>
       year saved = string_path e (property b ''year'') \<and>
       section' saved = string_path e (property b ''section'') \<and>
       libraryCode saved = string_path e (property b ''libraryCode'') \<and>
       reason saved = string_path e (property b ''reason'') \<and>
       status saved =
         (case property b ''status'' of None \<Rightarrow> Value ''accepted'' | Some v \<Rightarrow> castString e v) \<and>
       acceptedAt saved =
         (case property b ''acceptedAt'' of None \<Rightarrow> Value (now e) | Some v \<Rightarrow> castDate e v) \<and>
       (\<forall>b'. (\<forall>k \<in> set acceptedIdCard_paths. property b' k = property b k) \<longrightarrow>
          new_AcceptedIdCard e b' = saved\<lparr>oid := new_oid e b'\<rparr>)"
proof -
  from assms have "res_status (fst (app e db (POST_api_accept_idcard b))) = 201"
    by simp
  then have ok: "readyState db = 1" "save_throws e = None" "deleteOne_throws e = None"
    by (simp_all add: accept_201_iff)
  from accept_201_result [OF ok, of b] assms(1)
  have sent: "res = \<lparr>res_status = 201,
      res_json = Accepted_json ''ID card request accepted successfully'' (new_AcceptedIdCard e b)\<rparr>"
    and stored: "acceptedidcards db' = acceptedidcards db @ [new_AcceptedIdCard e b]"
    by auto
  have fields:
    "registerNumber (new_AcceptedIdCard e b) = string_path e (property b ''registerNumber'')"
    "name (new_AcceptedIdCard e b) = string_path e (property b ''name'')"
    "dob (new_AcceptedIdCard e b) = string_path e (property b ''dob'')"
    "department (new_AcceptedIdCard e b) = string_path e (property b ''department'')"
    "year (new_AcceptedIdCard e b) = string_path e (property b ''year'')"
    "section' (new_AcceptedIdCard e b) = string_path e (property b ''section'')"
    "libraryCode (new_AcceptedIdCard e b) = string_path e (property b ''libraryCode'')"
    "reason (new_AcceptedIdCard e b) = string_path e (property b ''reason'')"
    "status (new_AcceptedIdCard e b) =
       (case property b ''status'' of None \<Rightarrow> Value ''accepted'' | Some v \<Rightarrow> castString e v)"
    "acceptedAt (new_AcceptedIdCard e b) =
       (case property b ''acceptedAt'' of None \<Rightarrow> Value (now e) | Some v \<Rightarrow> castDate e v)"
    by (simp_all add: new_AcceptedIdCard_def)
  have paths: "\<forall>b'. (\<forall>k \<in> set acceptedIdCard_paths. property b' k = property b k) \<longrightarrow>
      new_AcceptedIdCard e b' = (new_AcceptedIdCard e b)\<lparr>oid := new_oid e b'\<rparr>"
    by (simp add: acceptedIdCard_paths_def new_AcceptedIdCard_def)
  from sent stored fields paths show ?thesis
    by (intro exI [of _ "new_AcceptedIdCard e b"] conjI)
qed

text \<open>The accept of R100 with neither status nor acceptedAt in the body, at time 1000.\<close>

theorem accept_stores_body_witness:
  "res_status (fst (app quiet db_pending (POST_api_accept_idcard body_R100))) = 201 \<and>
   (\<exists>saved.
      res_json (fst (app quiet db_pending (POST_api_accept_idcard body_R100))) =
        Accepted_json ''ID card request accepted successfully'' saved \<and>
      acceptedidcards (snd (app quiet db_pending (POST_api_accept_idcard body_R100))) = [saved] \<and>
      registerNumber saved = Some ''R100'' \<and> status saved = Value ''accepted'' \<and>
      acceptedAt saved = Value 1000)"
proof -
  have ok: "res_status (fst (app quiet db_pending (POST_api_accept_idcard body_R100))) = 201"
    by (simp add: accept_201_iff db_pending_def empty_db_def quiet_def)
  from accept_stores_body [of quiet db_pending body_R100
      "fst (app quiet db_pending (POST_api_accept_idcard body_R100))"
      "snd (app quiet db_pending (POST_api_accept_idcard body_R100))"] ok
  obtain saved where
    "fst (app quiet db_pending (POST_api_accept_idcard body_R100)) =
       \<lparr>res_status = 201,
        res_json = Accepted_json ''ID card request accepted successfully'' saved\<rparr>"
    "acceptedidcards (snd (app quiet db_pending (POST_api_accept_idcard body_R100))) =
       acceptedidcards db_pending @ [saved]"
    "registerNumber saved = string_path quiet (property body_R100 ''registerNumber'')"
    "status saved =
       (case property body_R100 ''status'' of None \<Rightarrow> Value ''accepted''
        | Some v \<Rightarrow> castString quiet v)"
    "acceptedAt saved =
       (case property body_R100 ''acceptedAt'' of None \<Rightarrow> Value (now quiet)
        | Some v \<Rightarrow> castDate quiet v)"
    by auto
  then have
    "res_json (fst (app quiet db_pending (POST_api_accept_idcard body_R100))) =
        Accepted_json ''ID card request accepted successfully'' saved \<and>
      acceptedidcards (snd (app quiet db_pending (POST_api_accept_idcard body_R100))) = [saved] \<and>
      registerNumber saved = Some ''R100'' \<and> status saved = Value ''accepted'' \<and>
      acceptedAt saved = Value 1000"
    by (simp add: body_R100_def property_def quiet_def db_pending_def empty_db_def)
  with ok show ?thesis by blast
qed

text \<open>
  C6, as stated, fails. With two pending requests for R100, a successful accept of
  R100 removes the first; the second, with the same register number, is still in
  \<open>printids\<close>.
\<close>

theorem deleteOne_leaves_second_match:
  "res_status (fst (app quiet db_two_pending (POST_api_accept_idcard body_R100))) = 201 \<and>
   printids (snd (app quiet db_two_pending (POST_api_accept_idcard body_R100))) = [print_R100 2] \<and>
   registerNumber (print_R100 2) = Some ''R100'' \<and>
   property body_R100 ''registerNumber'' = Some (JString ''R100'')"
  by (simp add: app_connected post_api_accept_idcard_def save_then_delete_def Let_def issue_def
      printid_filter_def property_def db_two_pending_def empty_db_def quiet_def body_R100_def
      print_R100_def)

text \<open>
  C6, amended. A successful accept removes from \<open>printids\<close> the first document that
  matches the filter on the body's register number, and nothing else: if no document
  matches, \<open>printids\<close> is as it was; otherwise the documents before and after the first
  match are kept in their order. So the number of matching documents goes down by one, or
  stays zero; further matches remain. For a body that has a register number, a document
  matches exactly when it has that register number. The number removed is not checked.
\<close>

theorem accept_deletes_first_match:
  assumes "app e db (POST_api_accept_idcard b) = (res, db')" and "res_status res = 201"
  shows
    "(if \<exists>d \<in> set (printids db). printid_filter e b d
      then \<exists>xs d ys. printids db = xs @ d # ys \<and> printid_filter e b d \<and>
             (\<forall>x \<in> set xs. \<not> printid_filter e b x) \<and> printids db' = xs @ ys
      else printids db' = printids db) \<and>
     length (filter (printid_filter e b) (printids db')) =
       length (filter (printid_filter e b) (printids db)) - 1 \<and>
     (\<forall>r. property b ''registerNumber'' = Some (JString r) \<longrightarrow>
        (\<forall>d. printid_filter e b d \<longleftrightarrow> registerNumber d = Some r))"
proof -
  from assms have "res_status (fst (app e db (POST_api_accept_idcard b))) = 201"
    by simp
  then have ok: "readyState db = 1" "save_throws e = None" "deleteOne_throws e = None"
    by (simp_all add: accept_201_iff)
  from accept_201_result [OF ok, of b] assms(1)
  have p: "printids db' = deleteOne (printid_filter e b) (printids db)"
    by auto
  have 1: "if \<exists>d \<in> set (printids db). printid_filter e b d
      then \<exists>xs d ys. printids db = xs @ d # ys \<and> printid_filter e b d \<and>
             (\<forall>x \<in> set xs. \<not> printid_filter e b x) \<and> printids db' = xs @ ys
      else printids db' = printids db"
    using deleteOne_first_match [of "printids db" "printid_filter e b"]
      deleteOne_no_match [of "printids db" "printid_filter e b"]
    by (simp add: p)
  have 2: "length (filter (printid_filter e b) (printids db')) =
       length (filter (printid_filter e b) (printids db)) - 1"
    by (simp add: p length_filter_deleteOne)
  have 3: "\<forall>r. property b ''registerNumber'' = Some (JString r) \<longrightarrow>
        (\<forall>d. printid_filter e b d \<longleftrightarrow> registerNumber d = Some r)"
    by (simp add: printid_filter_def)
  from 1 2 3 show ?thesis by blast
qed

text \<open>Two pending requests for R100 before the accept, one after it.\<close>

theorem accept_deletes_first_match_witness:
  "res_status (fst (app quiet db_two_pending (POST_api_accept_idcard body_R100))) = 201 \<and>
   length (filter (printid_filter quiet body_R100) (printids db_two_pending)) = 2 \<and>
   length (filter (printid_filter quiet body_R100)
     (printids (snd (app quiet db_two_pending (POST_api_accept_idcard body_R100))))) = 1"
proof -
  have ok: "res_status (fst (app quiet db_two_pending (POST_api_accept_idcard body_R100))) = 201"
    by (simp add: accept_201_iff db_two_pending_def empty_db_def quiet_def)
  have two: "length (filter (printid_filter quiet body_R100) (printids db_two_pending)) = 2"
    by (simp add: printid_filter_def property_def db_two_pending_def empty_db_def quiet_def
        body_R100_def print_R100_def)
  from accept_deletes_first_match [of quiet db_two_pending body_R100
      "fst (app quiet db_two_pending (POST_api_accept_idcard body_R100))"
      "snd (app quiet db_two_pending (POST_api_accept_idcard body_R100))"] ok two
  show ?thesis by simp
qed

text \<open>
  C1, as stated, fails. In a store where R100 is pending twice and was accepted before, a
  successful accept of R100 is followed by a list of accepted cards with two documents
  for R100 with status "accepted", and by a list of pending requests that still has one
  for R100. And a successful accept whose body has the status "rejected" is followed by a
  list of accepted cards with no document for R100 with status "accepted".
\<close>

theorem accept_then_lists_counterexample:
  "res_status (fst (app quiet db_accepted_before (POST_api_accept_idcard body_R100))) = 201 \<and>
   property body_R100 ''registerNumber'' = Some (JString ''R100'') \<and>
   fst (app quiet (snd (app quiet db_accepted_before (POST_api_accept_idcard body_R100)))
          GET_api_accepted_idcards) =
     \<lparr>res_status = 200,
      res_json = Acceptedidcards_json [accepted_R100 3, new_AcceptedIdCard quiet body_R100]\<rparr> \<and>
   length (accepted_with ''R100'' [accepted_R100 3, new_AcceptedIdCard quiet body_R100]) = 2 \<and>
   fst (app quiet (snd (app quiet db_accepted_before (POST_api_accept_idcard body_R100)))
          GET_api_printed) =
     \<lparr>res_status = 200, res_json = Printids_json [print_R100 2]\<rparr> \<and>
   with_registerNumber ''R100'' [print_R100 2] = [print_R100 2] \<and>
   res_status (fst (app quiet db_pending (POST_api_accept_idcard body_R100_rejected))) = 201 \<and>
   property body_R100_rejected ''registerNumber'' = Some (JString ''R100'') \<and>
   fst (app quiet (snd (app quiet db_pending (POST_api_accept_idcard body_R100_rejected)))
          GET_api_accepted_idcards) =
     \<lparr>res_status = 200,
      res_json = Acceptedidcards_json [new_AcceptedIdCard quiet body_R100_rejected]\<rparr> \<and>
   accepted_with ''R100'' [new_AcceptedIdCard quiet body_R100_rejected] = []"
  by (simp add: app_connected post_api_accept_idcard_def save_then_delete_def Let_def issue_def
      get_api_accepted_idcards_def get_api_printed_def accepted_with_def with_registerNumber_def
      hydrate_acceptedidcard_def hydrate_printid_def
      printid_filter_def property_def new_AcceptedIdCard_def db_accepted_before_def
      db_pending_def empty_db_def quiet_def body_R100_def body_R100_rejected_def
      accepted_R100_def print_R100_def)

text \<open>
  C1, amended. Let an accept with register number \<open>r\<close> in its body succeed, where the body
  has no status or the status "accepted", and where before the accept no accepted card
  with register number \<open>r\<close> was listed with status "accepted" (none is stored with that
  status or without a status) and at most one pending request had register number \<open>r\<close>.
  Then a following GET /api/accepted-idcards whose \<open>find\<close> does not throw returns
  exactly one document with register number \<open>r\<close> and status "accepted", and a following
  GET /api/printed whose \<open>find\<close> does not throw returns no document with register number
  \<open>r\<close>.
\<close>

theorem accept_then_lists:
  assumes "app e db (POST_api_accept_idcard b) = (res, db')" and "res_status res = 201"
    and "property b ''registerNumber'' = Some (JString r)"
    and "property b ''status'' = None \<or> property b ''status'' = Some (JString ''accepted'')"
    and "accepted_with r (map (hydrate_acceptedidcard (now e)) (acceptedidcards db)) = []"
    and "length (with_registerNumber r (printids db)) \<le> 1"
    and "find_throws e1 = None" and "find_throws e2 = None"
  shows
    "(\<exists>ds. fst (app e1 db' GET_api_accepted_idcards) =
             \<lparr>res_status = 200, res_json = Acceptedidcards_json ds\<rparr> \<and>
           length (accepted_with r ds) = 1) \<and>
     (\<exists>ps. fst (app e2 db' GET_api_printed) =
             \<lparr>res_status = 200, res_json = Printids_json ps\<rparr> \<and>
           with_registerNumber r ps = [])"
proof -
  from assms(1,2) have "res_status (fst (app e db (POST_api_accept_idcard b))) = 201"
    by simp
  then have ok: "readyState db = 1" "save_throws e = None" "deleteOne_throws e = None"
    by (simp_all add: accept_201_iff)
  from accept_201_result [OF ok, of b] assms(1) ok(1)
  have db': "readyState db' = 1"
    "acceptedidcards db' = acceptedidcards db @ [new_AcceptedIdCard e b]"
    "printids db' = deleteOne (printid_filter e b) (printids db)"
    by auto
  have new: "accepted_with r [hydrate_acceptedidcard (now e1) (new_AcceptedIdCard e b)] =
      [hydrate_acceptedidcard (now e1) (new_AcceptedIdCard e b)]"
    using assms(3,4)
    by (auto simp: accepted_with_def new_AcceptedIdCard_def hydrate_acceptedidcard_def)
  have "length (accepted_with r (map (hydrate_acceptedidcard (now e1)) (acceptedidcards db))) =
      length (accepted_with r (map (hydrate_acceptedidcard (now e)) (acceptedidcards db)))"
    by (rule accepted_with_hydrate_time)
  with assms(5)
  have old: "accepted_with r (map (hydrate_acceptedidcard (now e1)) (acceptedidcards db)) = []"
    by simp
  have a: "length (accepted_with r
      (map (hydrate_acceptedidcard (now e1)) (acceptedidcards db'))) = 1"
    using old new by (simp add: db' accepted_with_def)
  have pf: "printid_filter e b = (\<lambda>d. registerNumber d = Some r)"
    using assms(3) by (simp add: printid_filter_def fun_eq_iff)
  have "length (with_registerNumber r (printids db')) =
      length (with_registerNumber r (printids db)) - 1"
    by (simp add: db' pf with_registerNumber_def length_filter_deleteOne)
  with assms(6) have "with_registerNumber r (printids db') = []"
    by simp
  then have p: "with_registerNumber r (map (hydrate_printid (now e2)) (printids db')) = []"
    by (simp add: with_registerNumber_hydrate)
  have "fst (app e1 db' GET_api_accepted_idcards) =
      \<lparr>res_status = 200,
       res_json =
         Acceptedidcards_json
           (map (hydrate_acceptedidcard (now e1)) (acceptedidcards db'))\<rparr>"
    using assms(7) db'(1)
    by (simp add: app_connected get_api_accepted_idcards_def Let_def issue_def)
  moreover have "fst (app e2 db' GET_api_printed) =
      \<lparr>res_status = 200,
       res_json = Printids_json (map (hydrate_printid (now e2)) (printids db'))\<rparr>"
    using assms(8) db'(1)
    by (simp add: app_connected get_api_printed_def Let_def issue_def)
  ultimately show ?thesis using a p by blast
qed

text \<open>One pending request for R100, nothing accepted yet, and the body without a status.\<close>

theorem accept_then_lists_witness:
  "res_status (fst (app quiet db_pending (POST_api_accept_idcard body_R100))) = 201 \<and>
   property body_R100 ''registerNumber'' = Some (JString ''R100'') \<and>
   property body_R100 ''status'' = None \<and>
   accepted_with ''R100''
     (map (hydrate_acceptedidcard (now quiet)) (acceptedidcards db_pending)) = [] \<and>
   length (with_registerNumber ''R100'' (printids db_pending)) = 1 \<and>
   find_throws quiet = None \<and>
   (\<exists>ds. fst (app quiet (snd (app quiet db_pending (POST_api_accept_idcard body_R100)))
                GET_api_accepted_idcards) =
            \<lparr>res_status = 200, res_json = Acceptedidcards_json ds\<rparr> \<and>
          length (accepted_with ''R100'' ds) = 1) \<and>
   (\<exists>ps. fst (app quiet (snd (app quiet db_pending (POST_api_accept_idcard body_R100)))
                GET_api_printed) =
            \<lparr>res_status = 200, res_json = Printids_json ps\<rparr> \<and>
          with_registerNumber ''R100'' ps = [])"
proof -
  have ok: "res_status (fst (app quiet db_pending (POST_api_accept_idcard body_R100))) = 201"
    by (simp add: accept_201_iff db_pending_def empty_db_def quiet_def)
  have h: "property body_R100 ''registerNumber'' = Some (JString ''R100'')"
    "property body_R100 ''status'' = None"
    "accepted_with ''R100''
       (map (hydrate_acceptedidcard (now quiet)) (acceptedidcards db_pending)) = []"
    "length (with_registerNumber ''R100'' (printids db_pending)) = 1"
    "find_throws quiet = None"
    by (simp_all add: body_R100_def property_def accepted_with_def with_registerNumber_def
        db_pending_def empty_db_def print_R100_def quiet_def)
  from accept_then_lists [of quiet db_pending body_R100
      "fst (app quiet db_pending (POST_api_accept_idcard body_R100))"
      "snd (app quiet db_pending (POST_api_accept_idcard body_R100))" "''R100''" quiet quiet]
    ok h
  show ?thesis by simp
qed

section \<open>The login check\<close>




text \<open>
  C9, as stated, fails. A login whose body has no \<open>adminId\<close> is answered with HTTP 401 by
  a store whose allow-list is not empty: the undefined value is not dropped from the
  filter, it is sent as null, and the one document, which has an \<open>adminid\<close>, does not
  match.
\<close>

theorem login_without_adminId_rejected:
  "readyState db_root = 1 \<and> findOne_throws quiet = None \<and> property [] ''adminId'' = None \<and>
   adminids db_root \<noteq> [] \<and>
   fst (app quiet db_root (POST_api_login [])) =
     \<lparr>res_status = 401, res_json = Failure_json ''Invalid admin ID''\<rparr>"
  by (simp add: app_connected post_api_login_def Let_def issue_def adminid_filter_def
      property_def db_root_def empty_db_def quiet_def)

text \<open>
  C9, amended. With the connection ready, a login whose body has no \<open>adminId\<close> looks up
  with the filter \<open>{adminid: null}\<close>, which the documents without an \<open>adminid\<close> match
  and no others. If \<open>findOne\<close> does not throw, the response is HTTP 200
  \<open>{success: true}\<close> if some document of \<open>adminids\<close> has no \<open>adminid\<close>, and HTTP 401
  \<open>{success: false, message: "Invalid admin ID"}\<close> if every document has one or the
  collection is empty; if it throws, the response is HTTP 500 with its message.
\<close>

theorem login_undefined_adminId:
  assumes "readyState db = 1" and "property b ''adminId'' = None"
  shows
    "fst (app e db (POST_api_login b)) =
       (case findOne_throws e of
          Some msg \<Rightarrow> \<lparr>res_status = 500, res_json = Error_json msg\<rparr>
        | None \<Rightarrow>
            if \<exists>d \<in> set (adminids db). adminid d = None
            then \<lparr>res_status = 200, res_json = Success_json\<rparr>
            else \<lparr>res_status = 401, res_json = Failure_json ''Invalid admin ID''\<rparr>)"
proof (cases "findOne_throws e")
  case (Some msg)
  with assms(1) show ?thesis
    by (simp add: app_connected post_api_login_def Let_def)
next
  case None
  have f: "adminid_filter e b = (\<lambda>d. adminid d = None)"
    using assms(2) by (simp add: adminid_filter_def fun_eq_iff)
  show ?thesis
  proof (cases "\<exists>d \<in> set (adminids db). adminid d = None")
    case True
    then obtain d where "findOne (\<lambda>d. adminid d = None) (adminids db) = Some d"
      using findOne_Some_iff [of "\<lambda>d. adminid d = None" "adminids db"] by blast
    with True None assms(1) show ?thesis
      by (simp add: app_connected post_api_login_def Let_def issue_def f)
  next
    case False
    then have "findOne (\<lambda>d. adminid d = None) (adminids db) = None"
      by (simp add: findOne_None_iff)
    with False None assms(1) show ?thesis
      by (simp add: app_connected post_api_login_def Let_def issue_def f)
  qed
qed

text \<open>
  The body \<open>{}\<close>: rejected by the store that holds "root" only, accepted by the store
  that also holds a document without \<open>adminid\<close>.
\<close>

theorem login_undefined_adminId_witness:
  "readyState db_root = 1 \<and> readyState db_root_and_blank = 1 \<and>
   property [] ''adminId'' = None \<and>
   fst (app quiet db_root (POST_api_login [])) =
     \<lparr>res_status = 401, res_json = Failure_json ''Invalid admin ID''\<rparr> \<and>
   fst (app quiet db_root_and_blank (POST_api_login [])) =
     \<lparr>res_status = 200, res_json = Success_json\<rparr>"
  using login_undefined_adminId [of db_root "[]" quiet]
    login_undefined_adminId [of db_root_and_blank "[]" quiet]
  by (simp add: db_root_def db_root_and_blank_def empty_db_def property_def quiet_def)

end
